theory Spec2Isabelle
  imports Complex_Main "HOL-Library.Log_Nat"
begin

section \<open>JavaScript numbers\<close>

text \<open>
  Every number of \<^verbatim>\<open>coursePurchase.controller.js\<close> is an IEEE 754 binary64 value. A finite
  one is modelled by the rational it denotes (\<open>Num\<close>); the sign of a zero is not kept.
  The result of an arithmetic operation is the exact result rounded to the nearest
  binary64 value, ties to the even significand, as ECMAScript prescribes.
\<close>

datatype number = Num rat | PosInfinity | NegInfinity | NaN

definition pow2 :: "int \<Rightarrow> rat" where
  "pow2 e = (if 0 \<le> e then 2 ^ nat e else 1 / 2 ^ nat (- e))"

definition round_half_even :: "rat \<Rightarrow> int" where
  "round_half_even x =
     (let f = \<lfloor>x\<rfloor>; d = x - of_int f
      in if d < 1 / 2 then f else if 1 / 2 < d then f + 1 else if even f then f else f + 1)"

text \<open>
  \<open>floor_log2 a\<close> is the binary exponent of a positive rational \<open>a\<close>, read off the bit
  length of its integer part, or of the integer part of its inverse when \<open>a < 1\<close>.
\<close>

definition floor_log2 :: "rat \<Rightarrow> int" where
  "floor_log2 a =
     (if 1 \<le> a then int (floorlog 2 (nat \<lfloor>a\<rfloor>)) - 1
      else - int (floorlog 2 (nat (\<lceil>1 / a\<rceil> - 1))))"

text \<open>
  A binary64 value has 53 significant bits and exponents from -1022 (below which the
  spacing stays \<open>2\<^sup>-\<^sup>1\<^sup>0\<^sup>7\<^sup>4\<close>, the subnormal range) to 1023; a rounded magnitude of
  \<open>2\<^sup>1\<^sup>0\<^sup>2\<^sup>4\<close> or more is an infinity.
\<close>

definition round_magnitude :: "rat \<Rightarrow> rat" where
  "round_magnitude a =
     (let e = max (floor_log2 a) (- 1022); ulp = pow2 (e - 52)
      in of_int (round_half_even (a / ulp)) * ulp)"

definition binary64 :: "rat \<Rightarrow> number" where
  "binary64 x =
     (if x = 0 then Num 0
      else let r = round_magnitude \<bar>x\<bar>
           in if pow2 1024 \<le> r then (if 0 < x then PosInfinity else NegInfinity)
              else Num (if 0 < x then r else - r))"

fun negate :: "number \<Rightarrow> number" where
  "negate (Num a) = Num (- a)"
| "negate PosInfinity = NegInfinity"
| "negate NegInfinity = PosInfinity"
| "negate NaN = NaN"

text \<open>The operators \<^verbatim>\<open>*\<close> and \<^verbatim>\<open>/\<close> on numbers (a zero divisor is taken as \<open>+0\<close>).\<close>

fun js_mul :: "number \<Rightarrow> number \<Rightarrow> number" where
  "js_mul (Num a) (Num b) = binary64 (a * b)"
| "js_mul NaN y = NaN"
| "js_mul x NaN = NaN"
| "js_mul (Num a) y = (if a = 0 then NaN else if 0 < a then y else negate y)"
| "js_mul x (Num b) = (if b = 0 then NaN else if 0 < b then x else negate x)"
| "js_mul x y = (if x = y then PosInfinity else NegInfinity)"

fun js_div :: "number \<Rightarrow> number \<Rightarrow> number" where
  "js_div (Num a) (Num b) =
     (if b = 0 then (if a = 0 then NaN else if 0 < a then PosInfinity else NegInfinity)
      else binary64 (a / b))"
| "js_div NaN y = NaN"
| "js_div x NaN = NaN"
| "js_div (Num a) y = Num 0"
| "js_div x (Num b) = (if 0 \<le> b then x else negate x)"
| "js_div x y = NaN"

text \<open>Truthiness of a number: \<open>0\<close> and \<open>NaN\<close> are falsy.\<close>

fun truthy :: "number \<Rightarrow> bool" where
  "truthy (Num a) = (a \<noteq> 0)"
| "truthy NaN = False"
| "truthy x = True"

text \<open>
  \<^verbatim>\<open>x.toFixed(2)\<close> is a string. For \<open>\<bar>x\<bar> < 10\<^sup>2\<^sup>1\<close> it is the decimal \<open>n / 100\<close> where
  \<open>n\<close> is the integer nearest to \<open>100 * \<bar>x\<bar>\<close>, the larger one of two; otherwise it is the
  ordinary string of \<open>x\<close>, which reads back as \<open>x\<close>. \<open>toFixed2\<close> is the number that the
  string converts to when an arithmetic operator is applied to it.
\<close>

definition toFixed2_decimal :: "rat \<Rightarrow> rat" where
  "toFixed2_decimal x =
     (if 10 ^ 21 \<le> \<bar>x\<bar> then x
      else sgn x * of_int \<lfloor>100 * \<bar>x\<bar> + 1 / 2\<rfloor> / 100)"

fun toFixed2 :: "number \<Rightarrow> number" where
  "toFixed2 (Num x) = binary64 (toFixed2_decimal x)"
| "toFixed2 y = y"

text \<open>\<^verbatim>\<open>Math.round\<close>: the nearest integer, a tie going up.\<close>

fun Math_round :: "number \<Rightarrow> number" where
  "Math_round (Num x) = Num (of_int \<lfloor>x + 1 / 2\<rfloor>)"
| "Math_round y = y"

text \<open>The literal \<^verbatim>\<open>3.32\<close> is the binary64 value nearest to 332/100.\<close>

definition literal_3_32 :: rat where
  "literal_3_32 = 7475975381435023 / 2251799813685248"

section \<open>Currency conversion in \<^verbatim>\<open>createCheckoutSession\<close>\<close>

text \<open>
  Line 24: \<^verbatim>\<open>const convertedPrice = (course.coursePrice / 3.32).toFixed(2) * 100;\<close>
\<close>

definition convertedPrice :: "number \<Rightarrow> number" where
  "convertedPrice price = js_mul (toFixed2 (js_div price (Num literal_3_32))) (Num 100)"

text \<open>The amount as the specification words it: \<open>round((price / 3.32) * 100)\<close>.\<close>

definition spec_minor_units :: "number \<Rightarrow> number" where
  "spec_minor_units price = Math_round (js_mul (js_div price (Num literal_3_32)) (Num 100))"

section \<open>Documents and collections\<close>

text \<open>
  The Mongoose models are declared outside \<^verbatim>\<open>coursePurchase.controller.js\<close>; each document
  is a record of the fields that the controller reads or writes. Course, Lecture and User
  documents are looked up by \<^verbatim>\<open>_id\<close> only, so these collections are maps from identifiers.
  Purchases are looked up by other fields, where \<^verbatim>\<open>findOne\<close> takes the first match, so that
  collection is a list in storage order.
\<close>

type_synonym objectId = string

record purchase =
  courseId :: objectId
  userId :: objectId
  amount :: number
  status :: string
  paymentId :: "string option"

record course =
  courseTitle :: string
  courseThumbnail :: string
  coursePrice :: number
  lectures :: "objectId list"
  creator :: objectId
  enrolledStudents :: "objectId list"

record lecture =
  isPreviewFree :: bool

record user =
  enrolledCourses :: "objectId list"

record database =
  Courses :: "objectId \<rightharpoonup> course"
  CoursePurchases :: "purchase list"
  Lectures :: "objectId \<rightharpoonup> lecture"
  Users :: "objectId \<rightharpoonup> user"

definition findById :: "(objectId \<rightharpoonup> 'a) \<Rightarrow> objectId \<Rightarrow> 'a option" where
  "findById collection i = collection i"

definition findOne :: "('a \<Rightarrow> bool) \<Rightarrow> 'a list \<Rightarrow> 'a option" where
  "findOne matching collection = find matching collection"

text \<open>\<^verbatim>\<open>findOneAndDelete\<close> removes the first matching document, if there is one.\<close>

fun findOneAndDelete :: "('a \<Rightarrow> bool) \<Rightarrow> 'a list \<Rightarrow> 'a list" where
  "findOneAndDelete matching [] = []"
| "findOneAndDelete matching (d # ds) =
     (if matching d then ds else d # findOneAndDelete matching ds)"

text \<open>
  \<^verbatim>\<open>save\<close> on a document obtained by \<^verbatim>\<open>findOne\<close> writes it back in place of the stored
  one, which is the first document that matches the filter of the query.
\<close>

fun save :: "('a \<Rightarrow> bool) \<Rightarrow> 'a \<Rightarrow> 'a list \<Rightarrow> 'a list" where
  "save matching doc [] = []"
| "save matching doc (d # ds) =
     (if matching d then doc # ds else d # save matching doc ds)"

definition findByIdAndUpdate ::
  "objectId \<Rightarrow> ('a \<Rightarrow> 'a) \<Rightarrow> (objectId \<rightharpoonup> 'a) \<Rightarrow> (objectId \<rightharpoonup> 'a)" where
  "findByIdAndUpdate i update collection =
     (case collection i of None \<Rightarrow> collection | Some d \<Rightarrow> collection(i \<mapsto> update d))"

text \<open>\<^verbatim>\<open>updateMany({ _id: { $in: ids } }, update)\<close>\<close>

definition updateMany ::
  "objectId list \<Rightarrow> ('a \<Rightarrow> 'a) \<Rightarrow> (objectId \<rightharpoonup> 'a) \<Rightarrow> (objectId \<rightharpoonup> 'a)" where
  "updateMany ids update collection =
     (\<lambda>i. if i \<in> set ids then map_option update (collection i) else collection i)"

text \<open>The filters \<^verbatim>\<open>{ paymentId: id }\<close> and \<^verbatim>\<open>{ userId, courseId }\<close> on purchases.\<close>

definition byPaymentId :: "string \<Rightarrow> purchase \<Rightarrow> bool" where
  "byPaymentId sid p = (paymentId p = Some sid)"

definition byUserAndCourse :: "objectId \<Rightarrow> objectId \<Rightarrow> purchase \<Rightarrow> bool" where
  "byUserAndCourse uid cid p = (userId p = uid \<and> courseId p = cid)"

definition addToSet :: "'a \<Rightarrow> 'a list \<Rightarrow> 'a list" where
  "addToSet x xs = (if x \<in> set xs then xs else xs @ [x])"

section \<open>Exceptions, responses and the console\<close>

datatype exn = TypeError string | Rejected string

fun message :: "exn \<Rightarrow> string" where
  "message (TypeError m) = m"
| "message (Rejected m) = m"

datatype log_entry =
    LogText string
  | LogError exn
  | LogLabelled string exn
  | LogDocument "purchase option"

datatype payload =
    NoContent
  | Plain string
  | Message string
  | Outcome bool string
  | CheckoutUrl string
  | CourseStatus course "user option" "lecture list" bool
  | PurchasedCourse "(purchase \<times> course option) list"

record response =
  status_code :: nat
  payload :: payload

text \<open>
  What a handler leaves behind: the response it sent, if it sent one, the lines it wrote
  to the console, and the database.
\<close>

record result =
  sent :: "response option"
  console :: "log_entry list"
  store :: database

section \<open>The payment provider\<close>

text \<open>
  A Checkout Session as the controller reads it: \<^verbatim>\<open>id\<close> and \<^verbatim>\<open>url\<close> in the answer of
  \<^verbatim>\<open>sessions.create\<close>, \<^verbatim>\<open>id\<close> and \<^verbatim>\<open>amount_total\<close> in the object of a webhook event. \<open>None\<close>
  stands for a field that is \<^verbatim>\<open>null\<close> or missing.
\<close>

record checkout_session =
  session_id :: string
  url :: "string option"
  amount_total :: "number option"

record event =
  event_type :: string
  data_object :: checkout_session

record session_params =
  payment_method_types :: "string list"
  currency :: string
  product_name :: string
  product_images :: "string list"
  unit_amount :: number
  quantity :: nat
  mode :: string
  success_url :: string
  cancel_url :: string
  metadata_courseId :: objectId
  metadata_userId :: objectId
  allowed_countries :: "string list"

text \<open>
  The provider's client library is not part of the controller, so the three calls made
  on \<^verbatim>\<open>stripe\<close> are parameters of the handlers. A call either throws (\<open>Inl\<close>) or returns.
  \<open>'h\<close> is the type of signature headers.
\<close>

record 'h stripe =
  sessions_create :: "session_params \<Rightarrow> exn + checkout_session"
  generateTestHeaderString :: "string \<Rightarrow> string option \<Rightarrow> exn + 'h"
  constructEvent :: "string \<Rightarrow> 'h \<Rightarrow> string option \<Rightarrow> exn + event"


section \<open>\<^verbatim>\<open>createCheckoutSession\<close>\<close>

text \<open>Lines 26 to 51: the argument of \<^verbatim>\<open>stripe.checkout.sessions.create\<close>.\<close>

definition session_request :: "course \<Rightarrow> objectId \<Rightarrow> objectId \<Rightarrow> session_params" where
  "session_request c uid cid =
     \<lparr>payment_method_types = [''card''],
      currency = ''eur'',
      product_name = courseTitle c,
      product_images = [courseThumbnail c],
      unit_amount = convertedPrice (coursePrice c),
      quantity = 1,
      mode = ''payment'',
      success_url = ''http://localhost:5173/course-progress/'' @ cid,
      cancel_url = ''http://localhost:5173/course-detail/'' @ cid,
      metadata_courseId = cid,
      metadata_userId = uid,
      allowed_countries = [''FR'', ''US'', ''IT'', ''DE'']\<rparr>"

text \<open>
  \<^verbatim>\<open>!session.url\<close>: a missing URL and the empty string are falsy. \<open>session_url\<close> is the
  URL when there is a truthy one.
\<close>

definition session_url :: "checkout_session \<Rightarrow> string option" where
  "session_url session =
     (case url session of None \<Rightarrow> None | Some u \<Rightarrow> if u = [] then None else Some u)"

definition createCheckoutSession ::
  "'h stripe \<Rightarrow> database \<Rightarrow> objectId \<Rightarrow> objectId \<Rightarrow> result" where
  "createCheckoutSession stripe db uid cid =
     (case findById (Courses db) cid of
        None \<Rightarrow>
          \<lparr>sent = Some \<lparr>status_code = 404, payload = Message ''Course not found!''\<rparr>,
           console = [], store = db\<rparr>
      | Some c \<Rightarrow>
          let newPurchase =
                \<lparr>courseId = cid, userId = uid, amount = coursePrice c,
                 status = ''pending'', paymentId = None\<rparr>
          in case sessions_create stripe (session_request c uid cid) of
               Inl error \<Rightarrow>
                 \<lparr>sent = Some \<lparr>status_code = 500, payload = Outcome False ''Server error''\<rparr>,
                  console = [LogError error], store = db\<rparr>
             | Inr session \<Rightarrow>
                 (case session_url session of
                    None \<Rightarrow>
                      \<lparr>sent = Some \<lparr>status_code = 400,
                                    payload = Outcome False ''Error while creating session''\<rparr>,
                       console = [], store = db\<rparr>
                  | Some u \<Rightarrow>
                      \<lparr>sent = Some \<lparr>status_code = 200, payload = CheckoutUrl u\<rparr>,
                       console = [],
                       store = db\<lparr>CoursePurchases := CoursePurchases db @
                                 [newPurchase\<lparr>paymentId := Some (session_id session)\<rparr>]\<rparr>\<rparr>))"

section \<open>\<^verbatim>\<open>stripeWebhook\<close>\<close>

record 'b request =
  headers :: "(string \<times> string) list"
  body :: 'b

text \<open>
  Lines 77 to 86, the first \<^verbatim>\<open>try\<close> block. \<open>stringify\<close> is \<^verbatim>\<open>JSON.stringify\<close> with indentation
  2 on the parsed body, \<open>secret\<close> is \<^verbatim>\<open>process.env.WEBHOOK_ENDPOINT_SECRET\<close>.
\<close>

definition constructedEvent ::
  "'h stripe \<Rightarrow> ('b \<Rightarrow> string) \<Rightarrow> string option \<Rightarrow> 'b request \<Rightarrow> exn + event" where
  "constructedEvent stripe stringify secret req =
     (let payloadString = stringify (body req)
      in case generateTestHeaderString stripe payloadString secret of
           Inl error \<Rightarrow> Inl error
         | Inr header \<Rightarrow> constructEvent stripe payloadString header secret)"

definition makeVisible :: "lecture \<Rightarrow> lecture" where
  "makeVisible l = l\<lparr>isPreviewFree := True\<rparr>"

definition enrol :: "objectId \<Rightarrow> user \<Rightarrow> user" where
  "enrol cid u = u\<lparr>enrolledCourses := addToSet cid (enrolledCourses u)\<rparr>"

definition admit :: "objectId \<Rightarrow> course \<Rightarrow> course" where
  "admit uid c = c\<lparr>enrolledStudents := addToSet uid (enrolledStudents c)\<rparr>"

text \<open>Lines 109 to 112: the purchase as it is saved.\<close>

definition completedPurchase :: "checkout_session \<Rightarrow> purchase \<Rightarrow> purchase" where
  "completedPurchase session found =
     (case amount_total session of
        None \<Rightarrow> found
      | Some reported \<Rightarrow>
          if truthy reported then found\<lparr>amount := js_div reported (Num 100)\<rparr> else found)
     \<lparr>status := ''completed''\<rparr>"

text \<open>
  Lines 94 to 138. \<^verbatim>\<open>populate\<close> puts the course document, or \<^verbatim>\<open>null\<close> when there is none, in
  place of \<^verbatim>\<open>purchase.courseId\<close>; with \<^verbatim>\<open>null\<close> there, line 127 throws a \<^verbatim>\<open>TypeError\<close> after
  the purchase has been saved, and the \<^verbatim>\<open>catch\<close> of line 155 answers 500.
\<close>

definition sessionCompleted :: "checkout_session \<Rightarrow> database \<Rightarrow> result" where
  "sessionCompleted session db =
     (let received = LogText ''Checkout session completed event received.'';
          matching = byPaymentId (session_id session)
      in case findOne matching (CoursePurchases db) of
           None \<Rightarrow>
             \<lparr>sent = Some \<lparr>status_code = 404, payload = Message ''Purchase not found''\<rparr>,
              console = [received,
                         LogText (''Purchase not found for session: '' @ session_id session)],
              store = db\<rparr>
         | Some found \<Rightarrow>
             let populated = findById (Courses db) (courseId found);
                 purchase = completedPurchase session found;
                 db1 = (case populated of
                          None \<Rightarrow> db
                        | Some c \<Rightarrow>
                            if 0 < length (lectures c)
                            then db\<lparr>Lectures := updateMany (lectures c) makeVisible (Lectures db)\<rparr>
                            else db);
                 db2 = db1\<lparr>CoursePurchases := save matching purchase (CoursePurchases db1)\<rparr>
             in case populated of
                  None \<Rightarrow>
                    \<lparr>sent = Some \<lparr>status_code = 500, payload = Message ''Internal Server Error''\<rparr>,
                     console = [received,
                                LogLabelled ''Error handling webhook event:''
                                  (TypeError ''Cannot read properties of null (reading _id)'')],
                     store = db2\<rparr>
                | Some c \<Rightarrow>
                    let db3 = db2\<lparr>Users := findByIdAndUpdate (userId purchase)
                                              (enrol (courseId found)) (Users db2)\<rparr>;
                        db4 = db3\<lparr>Courses := findByIdAndUpdate (courseId found)
                                                (admit (userId purchase)) (Courses db3)\<rparr>
                    in \<lparr>sent = Some \<lparr>status_code = 200, payload = NoContent\<rparr>,
                        console = [received], store = db4\<rparr>)"

text \<open>Lines 140 to 148.\<close>

definition sessionExpired :: "checkout_session \<Rightarrow> database \<Rightarrow> result" where
  "sessionExpired expiredSession db =
     \<lparr>sent = Some \<lparr>status_code = 200, payload = NoContent\<rparr>,
      console = [LogText ''Checkout session expired event received.'',
                 LogText (''Pending purchase removed for expired session: ''
                          @ session_id expiredSession)],
      store = db\<lparr>CoursePurchases :=
                   findOneAndDelete (byPaymentId (session_id expiredSession))
                     (CoursePurchases db)\<rparr>\<rparr>"

text \<open>Lines 92 to 158, the second \<^verbatim>\<open>try\<close> block: the \<^verbatim>\<open>switch\<close> on the type of the event.\<close>

definition handleEvent :: "event \<Rightarrow> database \<Rightarrow> result" where
  "handleEvent ev db =
     (if event_type ev = ''checkout.session.completed'' then sessionCompleted (data_object ev) db
      else if event_type ev = ''checkout.session.expired'' then sessionExpired (data_object ev) db
      else \<lparr>sent = Some \<lparr>status_code = 200, payload = NoContent\<rparr>,
            console = [LogText (''Unhandled event type: '' @ event_type ev)],
            store = db\<rparr>)"

definition stripeWebhook ::
  "'h stripe \<Rightarrow> ('b \<Rightarrow> string) \<Rightarrow> string option \<Rightarrow> database \<Rightarrow> 'b request \<Rightarrow> result" where
  "stripeWebhook stripe stringify secret db req =
     (case constructedEvent stripe stringify secret req of
        Inl error \<Rightarrow>
          \<lparr>sent = Some \<lparr>status_code = 400, payload = Plain (''Webhook error: '' @ message error)\<rparr>,
           console = [LogText (''Webhook error: '' @ message error)],
           store = db\<rparr>
      | Inr ev \<Rightarrow> handleEvent ev db)"

section \<open>The query handlers\<close>

text \<open>
  The database above never fails, and the \<^verbatim>\<open>catch\<close> blocks of the two query handlers are
  reached only when an awaited query is rejected. These handlers therefore take, for each
  \<^verbatim>\<open>await\<close> in order, the error it is rejected with, if any.
\<close>

definition await :: "exn option \<Rightarrow> 'a \<Rightarrow> exn + 'a" where
  "await rejection v = (case rejection of Some error \<Rightarrow> Inl error | None \<Rightarrow> Inr v)"

definition getCourseDetailWithPurchaseStatus ::
  "(nat \<Rightarrow> exn option) \<Rightarrow> database \<Rightarrow> objectId \<Rightarrow> objectId \<Rightarrow> result" where
  "getCourseDetailWithPurchaseStatus rejection db uid cid =
     (case await (rejection 0) (findById (Courses db) cid) of
        Inl error \<Rightarrow> \<lparr>sent = None, console = [LogError error], store = db\<rparr>
      | Inr found \<Rightarrow>
          (case await (rejection 1)
                  (findOne (byUserAndCourse uid cid) (CoursePurchases db)) of
             Inl error \<Rightarrow> \<lparr>sent = None, console = [LogError error], store = db\<rparr>
           | Inr purchased \<Rightarrow>
               (case found of
                  None \<Rightarrow>
                    \<lparr>sent = Some \<lparr>status_code = 404, payload = Message ''course not found!''\<rparr>,
                     console = [LogDocument purchased], store = db\<rparr>
                | Some c \<Rightarrow>
                    \<lparr>sent = Some \<lparr>status_code = 200,
                                  payload = CourseStatus c (findById (Users db) (creator c))
                                              (List.map_filter (Lectures db) (lectures c))
                                              (purchased \<noteq> None)\<rparr>,
                     console = [LogDocument purchased], store = db\<rparr>)))"

text \<open>
  \<^verbatim>\<open>find\<close> resolves to an array, which is truthy even when empty, so the test of line 191
  never succeeds and the handler answers 200 whenever the query is not rejected.
\<close>

definition getAllPurchasedCourse :: "(nat \<Rightarrow> exn option) \<Rightarrow> database \<Rightarrow> result" where
  "getAllPurchasedCourse rejection db =
     (case await (rejection 0)
             (map (\<lambda>p. (p, findById (Courses db) (courseId p)))
                (filter (\<lambda>p. status p = ''completed'') (CoursePurchases db))) of
        Inl error \<Rightarrow> \<lparr>sent = None, console = [LogError error], store = db\<rparr>
      | Inr purchasedCourse \<Rightarrow>
          \<lparr>sent = Some \<lparr>status_code = 200, payload = PurchasedCourse purchasedCourse\<rparr>,
           console = [], store = db\<rparr>)"

section \<open>Sample data\<close>

text \<open>
  Concrete inputs for the examples below. The sample client answers \<^verbatim>\<open>sessions.create\<close> with
  a given session, uses the pair of secret and payload as signature header, and constructs
  a given event from a payload whose header matches.
\<close>

definition sample_client :: "checkout_session \<Rightarrow> event \<Rightarrow> (string \<times> string) stripe" where
  "sample_client session ev =
     \<lparr>sessions_create = (\<lambda>params. Inr session),
      generateTestHeaderString =
        (\<lambda>payload secret.
           case secret of
             None \<Rightarrow> Inl (TypeError ''The key argument must be of type string'')
           | Some k \<Rightarrow> Inr (k, payload)),
      constructEvent =
        (\<lambda>payload header secret.
           if secret = Some (fst header) \<and> snd header = payload then Inr ev
           else Inl (Rejected ''No signatures found matching the expected signature for payload''))\<rparr>"

definition sample_course :: course where
  "sample_course =
     \<lparr>courseTitle = ''Algebra'', courseThumbnail = ''algebra.png'', coursePrice = Num 15,
      lectures = [''l1'', ''l2''], creator = ''u0'', enrolledStudents = []\<rparr>"

definition sample_purchase :: purchase where
  "sample_purchase =
     \<lparr>courseId = ''c1'', userId = ''u1'', amount = Num 15, status = ''pending'',
      paymentId = Some ''cs_1''\<rparr>"

definition sample_db :: database where
  "sample_db =
     \<lparr>Courses = [''c1'' \<mapsto> sample_course],
      CoursePurchases = [sample_purchase],
      Lectures = [''l1'' \<mapsto> \<lparr>isPreviewFree = False\<rparr>, ''l2'' \<mapsto> \<lparr>isPreviewFree = True\<rparr>],
      Users = [''u0'' \<mapsto> \<lparr>enrolledCourses = []\<rparr>, ''u1'' \<mapsto> \<lparr>enrolledCourses = []\<rparr>]\<rparr>"

definition sample_event :: "string \<Rightarrow> number option \<Rightarrow> event" where
  "sample_event t reported =
     \<lparr>event_type = t,
      data_object = \<lparr>session_id = ''cs_1'', url = None, amount_total = reported\<rparr>\<rparr>"

definition sample_request :: "string request" where
  "sample_request = \<lparr>headers = [], body = ''{}''\<rparr>"

definition sample_session :: checkout_session where
  "sample_session =
     \<lparr>session_id = ''cs_2'', url = Some ''https://checkout.example/cs_2'', amount_total = None\<rparr>"

text \<open>The sample database after the course document has been removed.\<close>

definition orphan_db :: database where
  "orphan_db = sample_db\<lparr>Courses := Map.empty\<rparr>"





definition connection_lost :: "nat \<Rightarrow> exn option" where
  "connection_lost k = Some (Rejected ''connection lost'')"

section \<open>Rounding to binary64, evaluated\<close>

lemma floor_rat_numeral: "\<lfloor>numeral a / numeral b :: rat\<rfloor> = numeral a div numeral b"
  using floor_divide_of_int_eq [of "numeral a" "numeral b", where ?'a = rat] by simp

text \<open>\<open>round_half_even\<close> yields a nearest integer, the even one at a tie.\<close>

lemma round_half_even_nearest: "\<bar>of_int (round_half_even x) - x\<bar> \<le> 1 / 2"
proof -
  have "of_int \<lfloor>x\<rfloor> \<le> x" "x < of_int \<lfloor>x\<rfloor> + 1" by linarith+
  then show ?thesis by (auto simp: round_half_even_def Let_def)
qed

lemma round_half_even_tie:
  "\<bar>of_int (round_half_even x) - x\<bar> = 1 / 2 \<Longrightarrow> even (round_half_even x)"
proof -
  have "of_int \<lfloor>x\<rfloor> \<le> x" "x < of_int \<lfloor>x\<rfloor> + 1" by linarith+
  then show "\<bar>of_int (round_half_even x) - x\<bar> = 1 / 2 \<Longrightarrow> even (round_half_even x)"
    by (auto simp: round_half_even_def Let_def split: if_splits)
qed

lemma pow2_pos: "0 < pow2 e"
  by (simp add: pow2_def)

lemma pow2_add1: "pow2 (e + 1) = 2 * pow2 e"
proof (cases "0 \<le> e")
  case True
  then show ?thesis by (simp add: pow2_def nat_add_distrib)
next
  case False
  then have "nat (- e) = Suc (nat (- (e + 1)))" by simp
  with False show ?thesis by (simp add: pow2_def)
qed

lemma pow2_mono: "d \<le> e \<Longrightarrow> pow2 d \<le> pow2 e"
proof -
  have step: "pow2 d \<le> pow2 (d + int k)" for k
  proof (induction k)
    case 0
    show ?case by simp
  next
    case (Suc k)
    have "d + int (Suc k) = (d + int k) + 1" by simp
    then have "pow2 (d + int (Suc k)) = 2 * pow2 (d + int k)"
      by (simp only: pow2_add1)
    with Suc pow2_pos [of "d + int k"] show ?case by simp
  qed
  assume "d \<le> e"
  then have "e = d + int (nat (e - d))" by simp
  then show ?thesis using step [of "nat (e - d)"] by simp
qed

text \<open>\<open>floor_log2\<close> is the binary exponent: \<open>2\<^sup>e \<le> a < 2\<^sup>e\<^sup>+\<^sup>1\<close>.\<close>

lemma floor_log2_bounds:
  assumes "0 < a"
  shows "pow2 (floor_log2 a) \<le> a \<and> a < pow2 (floor_log2 a + 1)"
proof (cases "1 \<le> a")
  case True
  define n where "n = nat \<lfloor>a\<rfloor>"
  define k where "k = floorlog 2 n"
  have n: "0 < n" using True by (simp add: n_def)
  have k: "0 < k" using n by (simp add: k_def floorlog_def)
  have b: "2 ^ (k - 1) \<le> n" "n < 2 ^ k"
    using floorlog_bounds [of n 2] n by (simp_all add: k_def)
  have e: "floor_log2 a = int k - 1" using True by (simp add: floor_log2_def k_def n_def)
  have lo: "(of_nat n :: rat) \<le> a" using True by (simp add: n_def)
  have hi: "a < of_nat n + 1" using True by (simp add: n_def) linarith
  have "(of_nat (2 ^ (k - 1)) :: rat) \<le> of_nat n" using b(1) by (simp only: of_nat_le_iff)
  then have p1: "(2::rat) ^ (k - 1) \<le> of_nat n" by simp
  have "Suc n \<le> 2 ^ k" using b(2) by simp
  then have "(of_nat (Suc n) :: rat) \<le> of_nat (2 ^ k)" by (simp only: of_nat_le_iff)
  then have p2: "(of_nat n :: rat) + 1 \<le> 2 ^ k" by simp
  have P: "pow2 (int k - 1) = 2 ^ (k - 1)" using k by (simp add: pow2_def nat_diff_distrib')
  have Q: "pow2 (int k - 1 + 1) = 2 ^ k" by (simp add: pow2_def)
  show ?thesis unfolding e P Q using lo hi p1 p2 by linarith
next
  case False
  define m where "m = nat (\<lceil>1 / a\<rceil> - 1)"
  define k where "k = floorlog 2 m"
  have inv: "1 < 1 / a" using assms False by simp
  then have c2: "2 \<le> \<lceil>1 / a\<rceil>" by (simp add: le_ceiling_iff)
  have m: "0 < m" using c2 by (simp add: m_def)
  have k: "0 < k" using m by (simp add: k_def floorlog_def)
  have b: "2 ^ (k - 1) \<le> m" "m < 2 ^ k"
    using floorlog_bounds [of m 2] m by (simp_all add: k_def)
  have e: "floor_log2 a = - int k" using False by (simp add: floor_log2_def k_def m_def)
  have z: "0 \<le> \<lceil>1 / a\<rceil> - 1" using c2 by linarith
  have mi0: "int m = \<lceil>1 / a\<rceil> - 1" unfolding m_def using z by (rule nat_0_le)
  have "(of_int (int m) :: rat) = of_int (\<lceil>1 / a\<rceil> - 1)" by (simp only: mi0)
  then have mi: "(of_nat m :: rat) = of_int \<lceil>1 / a\<rceil> - 1" by simp
  have lo: "(of_nat m :: rat) < 1 / a"
    unfolding mi using ceiling_correct [of "1 / a"] by linarith
  have hi: "1 / a \<le> of_nat m + 1"
    unfolding mi using ceiling_correct [of "1 / a"] by linarith
  have "(of_nat (2 ^ (k - 1)) :: rat) \<le> of_nat m" using b(1) by (simp only: of_nat_le_iff)
  then have p1: "(2::rat) ^ (k - 1) \<le> of_nat m" by simp
  have "Suc m \<le> 2 ^ k" using b(2) by simp
  then have "(of_nat (Suc m) :: rat) \<le> of_nat (2 ^ k)" by (simp only: of_nat_le_iff)
  then have p2: "(of_nat m :: rat) + 1 \<le> 2 ^ k" by simp
  have "1 / a \<le> 2 ^ k" using hi p2 by linarith
  then have A: "1 / 2 ^ k \<le> a" using assms by (simp add: field_simps)
  have "2 ^ (k - 1) < 1 / a" using lo p1 by linarith
  then have B: "a < 1 / 2 ^ (k - 1)" using assms by (simp add: field_simps)
  have C: "pow2 (- int k) = 1 / 2 ^ k" using k by (simp add: pow2_def)
  have D: "pow2 (- int k + 1) = 1 / 2 ^ (k - 1)"
  proof (cases "k = 1")
    case True
    then show ?thesis by (simp add: pow2_def)
  next
    case False
    with k have "\<not> (0 \<le> - int k + 1)" "nat (- (- int k + 1)) = k - 1" by simp_all
    then show ?thesis by (simp only: pow2_def if_False)
  qed
  show ?thesis unfolding e C D using A B by simp
qed

lemma floor_log2_eqI:
  assumes "pow2 e \<le> a" "a < pow2 (e + 1)"
  shows "floor_log2 a = e"
proof -
  have pos: "0 < a" using assms(1) pow2_pos [of e] by simp
  note fb = floor_log2_bounds [OF pos]
  have "\<not> floor_log2 a + 1 \<le> e"
  proof
    assume "floor_log2 a + 1 \<le> e"
    then have "pow2 (floor_log2 a + 1) \<le> pow2 e" by (rule pow2_mono)
    with fb assms show False by simp
  qed
  moreover have "\<not> e + 1 \<le> floor_log2 a"
  proof
    assume "e + 1 \<le> floor_log2 a"
    then have "pow2 (e + 1) \<le> pow2 (floor_log2 a)" by (rule pow2_mono)
    with fb assms show False by simp
  qed
  ultimately show ?thesis by simp
qed

text \<open>Rounding a value whose exponent is known.\<close>

lemma binary64_at_exponent:
  assumes "pow2 e \<le> \<bar>x\<bar>" "\<bar>x\<bar> < pow2 (e + 1)" "- 1022 \<le> e"
  shows "binary64 x =
     (let r = of_int (round_half_even (\<bar>x\<bar> / pow2 (e - 52))) * pow2 (e - 52)
      in if pow2 1024 \<le> r then (if 0 < x then PosInfinity else NegInfinity)
         else Num (if 0 < x then r else - r))"
proof -
  have "floor_log2 \<bar>x\<bar> = e" using assms(1,2) by (rule floor_log2_eqI)
  moreover have "x \<noteq> 0" using assms(1) pow2_pos [of e] by auto
  ultimately show ?thesis
    using assms(3) by (simp add: binary64_def round_magnitude_def max_def Let_def)
qed

lemmas number_eval =
  pow2_def round_half_even_def Let_def floor_rat_numeral toFixed2_decimal_def

lemma literal_3_32_nearest: "binary64 (332 / 100) = Num literal_3_32"
  using binary64_at_exponent [of 1 "332 / 100"] by (simp add: literal_3_32_def number_eval)

lemma literal_33_2_nearest: "binary64 (332 / 10) = Num (2336242306698445 / 70368744177664)"
  using binary64_at_exponent [of 5 "332 / 10"] by (simp add: number_eval)

lemma literal_100_exact: "binary64 100 = Num 100"
  using binary64_at_exponent [of 6 100] by (simp add: number_eval)

text \<open>Price 15: the quotient, its two decimals, and the product with 100.\<close>

lemma quotient_15: "js_div (Num 15) (Num literal_3_32) = Num (5086897169469687 / 1125899906842624)"
  using binary64_at_exponent [of 2 "15 / literal_3_32"]
  by (simp add: literal_3_32_def number_eval)

lemma toFixed2_quotient_15:
  "toFixed2 (Num (5086897169469687 / 1125899906842624)) = Num (1272266894732165 / 281474976710656)"
  using binary64_at_exponent [of 2 "452 / 100"] by (simp add: number_eval)

lemma times_100_of_4_52:
  "js_mul (Num (1272266894732165 / 281474976710656)) (Num 100)
     = Num (7951668092076031 / 17592186044416)"
  using binary64_at_exponent [of 8 "1272266894732165 / 281474976710656 * 100"]
  by (simp add: number_eval)

lemma times_100_of_quotient_15:
  "js_mul (Num (5086897169469687 / 1125899906842624)) (Num 100)
     = Num (3974138413648193 / 8796093022208)"
  using binary64_at_exponent [of 8 "5086897169469687 / 1125899906842624 * 100"]
  by (simp add: number_eval)

lemma spec_minor_units_15: "spec_minor_units (Num 15) = Num 452"
  unfolding spec_minor_units_def quotient_15 times_100_of_quotient_15
  by (simp add: floor_rat_numeral)

lemma convertedPrice_15: "convertedPrice (Num 15) = Num (7951668092076031 / 17592186044416)"
  unfolding convertedPrice_def quotient_15 toFixed2_quotient_15 times_100_of_4_52 by (rule refl)

text \<open>Price 33.2: the quotient is 10.000000000000002, which \<^verbatim>\<open>toFixed(2)\<close> prints as 10.00.\<close>

lemma quotient_33_2:
  "js_div (Num (2336242306698445 / 70368744177664)) (Num literal_3_32)
     = Num (5629499534213121 / 562949953421312)"
  using binary64_at_exponent [of 3 "2336242306698445 / 70368744177664 / literal_3_32"]
  by (simp add: literal_3_32_def number_eval)

lemma toFixed2_quotient_33_2: "toFixed2 (Num (5629499534213121 / 562949953421312)) = Num 10"
  using binary64_at_exponent [of 3 10] by (simp add: number_eval)

lemma times_100_of_10: "js_mul (Num 10) (Num 100) = Num 1000"
  using binary64_at_exponent [of 9 1000] by (simp add: number_eval)

lemma convertedPrice_33_2: "convertedPrice (Num (2336242306698445 / 70368744177664)) = Num 1000"
  unfolding convertedPrice_def quotient_33_2 toFixed2_quotient_33_2 times_100_of_10 by (rule refl)

text \<open>
  C1 (the code departs from it). The claim: for every positive course price the
  \<^verbatim>\<open>unit_amount\<close> passed to the provider is \<open>round((price / 3.32) * 100)\<close>, and price 33.2
  gives exactly 1000. At price 33.2 the amount is 1000. At price 15 the quotient is
  4.518..., \<^verbatim>\<open>toFixed(2)\<close> gives \<^verbatim>\<open>"4.52"\<close>, and the binary64 product of 4.52 and 100 is
  451.99999999999994, not the integer 452 that the rounding of the claim yields.
\<close>

theorem convertedPrice_15_not_integral:
  "unit_amount (session_request (c\<lparr>coursePrice := Num 15\<rparr>) uid cid)
     = Num (7951668092076031 / 17592186044416)
   \<and> spec_minor_units (Num 15) = Num 452
   \<and> convertedPrice (Num 15) \<noteq> spec_minor_units (Num 15)
   \<and> convertedPrice (Num (2336242306698445 / 70368744177664)) = Num 1000"
  by (simp add: session_request_def convertedPrice_15 spec_minor_units_15 convertedPrice_33_2)

section \<open>Collections\<close>


lemma save_no_match: "findOne P xs = None \<Longrightarrow> save P q xs = xs"
  by (induction xs) (auto simp: findOne_def split: if_splits)

lemma findOne_save: "findOne P xs = Some p \<Longrightarrow> P q \<Longrightarrow> findOne P (save P q xs) = Some q"
  by (induction xs) (auto simp: findOne_def split: if_splits)

lemma save_save: "P q \<Longrightarrow> save P q (save P q xs) = save P q xs"
  by (induction xs) auto

lemma length_save: "length (save P q xs) = length xs"
  by (induction xs) auto

lemma findOneAndDelete_no_match: "findOne P xs = None \<Longrightarrow> findOneAndDelete P xs = xs"
  by (induction xs) (auto simp: findOne_def split: if_splits)

lemma findOne_Some_member: "findOne P xs = Some p \<Longrightarrow> p \<in> set xs \<and> P p"
  by (induction xs) (auto simp: findOne_def split: if_splits)

lemma findOneAndDelete_match:
  "findOne P xs = Some p \<Longrightarrow> findOneAndDelete P xs = remove1 p xs"
proof (induction xs)
  case Nil
  then show ?case by (simp add: findOne_def)
next
  case (Cons x xs)
  show ?case
  proof (cases "P x")
    case True
    with Cons.prems show ?thesis by (simp add: findOne_def)
  next
    case False
    with Cons.prems have rest: "findOne P xs = Some p" by (simp add: findOne_def)
    then have "P p" by (simp add: findOne_Some_member)
    with False have "x \<noteq> p" by auto
    with False Cons.IH [OF rest] show ?thesis by simp
  qed
qed

lemma addToSet_member: "x \<in> set (addToSet x xs)"
  by (simp add: addToSet_def)

lemma addToSet_idem: "addToSet x (addToSet x xs) = addToSet x xs"
  by (simp add: addToSet_def)

lemma set_addToSet: "set (addToSet x xs) = insert x (set xs)"
  by (auto simp: addToSet_def)

lemma distinct_addToSet: "distinct xs \<Longrightarrow> distinct (addToSet x xs)"
  by (simp add: addToSet_def)

lemma updateMany_idem:
  "(\<And>d. f (f d) = f d) \<Longrightarrow> updateMany ids f (updateMany ids f m) = updateMany ids f m"
  by (auto simp: updateMany_def fun_eq_iff option.map_comp o_def split: option.splits)

lemma updateMany_Nil: "updateMany [] f m = m"
  by (simp add: updateMany_def)

lemma findByIdAndUpdate_idem:
  "(\<And>d. f (f d) = f d) \<Longrightarrow> findByIdAndUpdate i f (findByIdAndUpdate i f m) = findByIdAndUpdate i f m"
  by (auto simp: findByIdAndUpdate_def fun_eq_iff split: option.splits)

lemma findByIdAndUpdate_apply:
  "findByIdAndUpdate i f m j = (if j = i then map_option f (m j) else m j)"
  by (auto simp: findByIdAndUpdate_def split: option.splits)

lemma byPaymentId_completedPurchase:
  "byPaymentId sid (completedPurchase s p) = byPaymentId sid p"
  by (simp add: byPaymentId_def completedPurchase_def split: option.splits)

lemma completedPurchase_fields:
  "paymentId (completedPurchase s p) = paymentId p"
  "courseId (completedPurchase s p) = courseId p"
  "userId (completedPurchase s p) = userId p"
  "status (completedPurchase s p) = ''completed''"
  by (simp_all add: completedPurchase_def split: option.splits)

lemma completedPurchase_idem:
  "completedPurchase s (completedPurchase s p) = completedPurchase s p"
  by (simp add: completedPurchase_def split: option.splits)

lemma sessionCompleted_not_found:
  assumes "findOne (byPaymentId (session_id s)) (CoursePurchases db) = None"
  shows "store (sessionCompleted s db) = db"
    and "sent (sessionCompleted s db) = Some \<lparr>status_code = 404, payload = Message ''Purchase not found''\<rparr>"
  using assms by (simp_all add: sessionCompleted_def Let_def)

lemma sessionCompleted_no_course:
  assumes "findOne (byPaymentId (session_id s)) (CoursePurchases db) = Some found"
    and "findById (Courses db) (courseId found) = None"
  shows "store (sessionCompleted s db) =
           db\<lparr>CoursePurchases := save (byPaymentId (session_id s))
                                    (completedPurchase s found) (CoursePurchases db)\<rparr>"
    and "sent (sessionCompleted s db) = Some \<lparr>status_code = 500, payload = Message ''Internal Server Error''\<rparr>"
  using assms by (simp_all add: sessionCompleted_def Let_def)

lemma sessionCompleted_found:
  assumes "findOne (byPaymentId (session_id s)) (CoursePurchases db) = Some found"
    and "findById (Courses db) (courseId found) = Some c"
  shows "store (sessionCompleted s db) =
           \<lparr>Courses = findByIdAndUpdate (courseId found) (admit (userId found)) (Courses db),
            CoursePurchases = save (byPaymentId (session_id s))
                                (completedPurchase s found) (CoursePurchases db),
            Lectures = updateMany (lectures c) makeVisible (Lectures db),
            Users = findByIdAndUpdate (userId found) (enrol (courseId found)) (Users db)\<rparr>"
    and "sent (sessionCompleted s db) = Some \<lparr>status_code = 200, payload = NoContent\<rparr>"
  using assms by (simp_all add: sessionCompleted_def Let_def completedPurchase_fields updateMany_Nil)

section \<open>The webhook\<close>

lemma stripeWebhook_verified:
  "constructedEvent stripe stringify secret req = Inr ev \<Longrightarrow>
   stripeWebhook stripe stringify secret db req = handleEvent ev db"
  by (simp add: stripeWebhook_def)

lemma handleEvent_completed:
  "event_type ev = ''checkout.session.completed'' \<Longrightarrow>
   handleEvent ev db = sessionCompleted (data_object ev) db"
  by (simp add: handleEvent_def)

lemma handleEvent_expired:
  "event_type ev = ''checkout.session.expired'' \<Longrightarrow>
   handleEvent ev db = sessionExpired (data_object ev) db"
  by (simp add: handleEvent_def)

lemma updateMany_apply:
  "i \<in> set ids \<Longrightarrow> updateMany ids f m i = map_option f (m i)"
  by (simp add: updateMany_def)

lemma makeVisible_idem: "makeVisible (makeVisible l) = makeVisible l"
  by (simp add: makeVisible_def)

lemma enrol_idem: "enrol cid (enrol cid u) = enrol cid u"
  by (simp add: enrol_def addToSet_idem)

lemma admit_idem: "admit uid (admit uid c) = admit uid c"
  by (simp add: admit_def addToSet_idem)

lemma lectures_admit: "lectures (admit uid c) = lectures c"
  by (simp add: admit_def)

text \<open>Handling a completed session a second time changes nothing and answers the same.\<close>

lemma sessionCompleted_twice:
  "store (sessionCompleted s (store (sessionCompleted s db))) = store (sessionCompleted s db)
   \<and> sent (sessionCompleted s (store (sessionCompleted s db))) = sent (sessionCompleted s db)"
proof (cases "findOne (byPaymentId (session_id s)) (CoursePurchases db)")
  case None
  then show ?thesis by (simp add: sessionCompleted_not_found)
next
  case (Some found)
  let ?P = "byPaymentId (session_id s)"
  let ?saved = "completedPurchase s found"
  have P: "?P ?saved"
    using findOne_Some_member [OF Some] by (simp add: byPaymentId_completedPurchase)
  show ?thesis
  proof (cases "findById (Courses db) (courseId found)")
    case None
    let ?db' = "db\<lparr>CoursePurchases := save ?P ?saved (CoursePurchases db)\<rparr>"
    have once: "store (sessionCompleted s db) = ?db'"
      and sent1: "sent (sessionCompleted s db)
                  = Some \<lparr>status_code = 500, payload = Message ''Internal Server Error''\<rparr>"
      using sessionCompleted_no_course [OF Some None] by simp_all
    have found': "findOne ?P (CoursePurchases ?db') = Some ?saved"
      using findOne_save [OF Some P] by simp
    have none': "findById (Courses ?db') (courseId ?saved) = None"
      using None by (simp add: completedPurchase_fields)
    from sessionCompleted_no_course [OF found' none'] P once sent1
    show ?thesis by (simp add: completedPurchase_idem save_save)
  next
    case (Some c)
    let ?db' = "\<lparr>Courses = findByIdAndUpdate (courseId found) (admit (userId found)) (Courses db),
                 CoursePurchases = save ?P ?saved (CoursePurchases db),
                 Lectures = updateMany (lectures c) makeVisible (Lectures db),
                 Users = findByIdAndUpdate (userId found) (enrol (courseId found)) (Users db)\<rparr>"
    have once: "store (sessionCompleted s db) = ?db'"
      and sent1: "sent (sessionCompleted s db) = Some \<lparr>status_code = 200, payload = NoContent\<rparr>"
      using sessionCompleted_found [OF \<open>findOne ?P (CoursePurchases db) = Some found\<close> Some]
      by simp_all
    have found': "findOne ?P (CoursePurchases ?db') = Some ?saved"
      using findOne_save [OF \<open>findOne ?P (CoursePurchases db) = Some found\<close> P] by simp
    have some': "findById (Courses ?db') (courseId ?saved) = Some (admit (userId found) c)"
      using Some by (simp add: completedPurchase_fields findById_def findByIdAndUpdate_apply)
    from sessionCompleted_found [OF found' some'] P once sent1
    show ?thesis
      by (simp add: completedPurchase_idem completedPurchase_fields save_save lectures_admit
          updateMany_idem makeVisible_idem findByIdAndUpdate_idem enrol_idem admit_idem)
  qed
qed

text \<open>Every stored user or course comes from the one stored before, at most enrolled once more.\<close>

lemma sessionCompleted_users:
  assumes "findById (Users (store (sessionCompleted s db))) i = Some u'"
  shows "\<exists>u. findById (Users db) i = Some u \<and> (u' = u \<or> (\<exists>cid. u' = enrol cid u))"
proof (cases "findOne (byPaymentId (session_id s)) (CoursePurchases db)")
  case None
  with assms show ?thesis by (simp add: sessionCompleted_not_found)
next
  case (Some found)
  show ?thesis
  proof (cases "findById (Courses db) (courseId found)")
    case None
    with assms Some show ?thesis by (simp add: sessionCompleted_no_course)
  next
    case (Some c)
    with assms \<open>findOne (byPaymentId (session_id s)) (CoursePurchases db) = Some found\<close>
    show ?thesis
      by (auto simp: sessionCompleted_found findById_def findByIdAndUpdate_apply split: if_splits)
  qed
qed

lemma sessionCompleted_courses:
  assumes "findById (Courses (store (sessionCompleted s db))) i = Some c'"
  shows "\<exists>c. findById (Courses db) i = Some c \<and> (c' = c \<or> (\<exists>uid. c' = admit uid c))"
proof (cases "findOne (byPaymentId (session_id s)) (CoursePurchases db)")
  case None
  with assms show ?thesis by (simp add: sessionCompleted_not_found)
next
  case (Some found)
  show ?thesis
  proof (cases "findById (Courses db) (courseId found)")
    case None
    with assms Some show ?thesis by (simp add: sessionCompleted_no_course)
  next
    case (Some c)
    with assms \<open>findOne (byPaymentId (session_id s)) (CoursePurchases db) = Some found\<close>
    show ?thesis
      by (auto simp: sessionCompleted_found findById_def findByIdAndUpdate_apply split: if_splits)
  qed
qed

lemma sessionCompleted_status:
  assumes "findOne (byPaymentId (session_id s)) (CoursePurchases (store (sessionCompleted s db))) = Some p"
  shows "status p = ''completed''"
proof (cases "findOne (byPaymentId (session_id s)) (CoursePurchases db)")
  case None
  with assms show ?thesis by (simp add: sessionCompleted_not_found)
next
  case (Some found)
  have P: "byPaymentId (session_id s) (completedPurchase s found)"
    using findOne_Some_member [OF Some] by (simp add: byPaymentId_completedPurchase)
  have "CoursePurchases (store (sessionCompleted s db))
        = save (byPaymentId (session_id s)) (completedPurchase s found) (CoursePurchases db)"
  proof (cases "findById (Courses db) (courseId found)")
    case None
    show ?thesis by (simp add: sessionCompleted_no_course(1) [OF Some None])
  next
    case (Some c)
    show ?thesis
      by (simp add: sessionCompleted_found(1)
            [OF \<open>findOne (byPaymentId (session_id s)) (CoursePurchases db) = Some found\<close> Some])
  qed
  with assms findOne_save [OF Some P] have "p = completedPurchase s found" by simp
  then show ?thesis by (simp add: completedPurchase_fields)
qed







lemmas sample_defs = sample_client_def sample_course_def sample_purchase_def sample_db_def
  sample_event_def sample_request_def sample_session_def

section \<open>The claims about the handlers\<close>

text \<open>
  When the course of the purchase exists, a \<^verbatim>\<open>checkout.session.completed\<close> event whose
  session id matches a pending purchase is handled in full: the purchase is completed, every
  lecture of the course is made visible, the user and the course are enrolled with each
  other, and the answer is 200.
\<close>

lemma stripeWebhook_completed_enrols:
  assumes verified: "constructedEvent stripe stringify secret req = Inr ev"
    and completed: "event_type ev = ''checkout.session.completed''"
    and found: "findOne (byPaymentId (session_id (data_object ev)))
                  (CoursePurchases db) = Some found"
    and pending: "status found = ''pending''"
    and populated: "findById (Courses db) (courseId found) = Some c"
  defines "after \<equiv> store (stripeWebhook stripe stringify secret db req)"
  shows "(\<exists>p. findOne (byPaymentId (session_id (data_object ev))) (CoursePurchases after) = Some p
             \<and> status p = ''completed'' \<and> courseId p = courseId found \<and> userId p = userId found)
       \<and> (\<forall>i \<in> set (lectures c). \<forall>l. findById (Lectures db) i = Some l \<longrightarrow>
             findById (Lectures after) i = Some (l\<lparr>isPreviewFree := True\<rparr>))
       \<and> (\<forall>u. findById (Users db) (userId found) = Some u \<longrightarrow>
             (\<exists>u'. findById (Users after) (userId found) = Some u'
                 \<and> set (enrolledCourses u') = insert (courseId found) (set (enrolledCourses u))))
       \<and> (\<exists>c'. findById (Courses after) (courseId found) = Some c'
             \<and> set (enrolledStudents c') = insert (userId found) (set (enrolledStudents c)))
       \<and> sent (stripeWebhook stripe stringify secret db req)
           = Some \<lparr>status_code = 200, payload = NoContent\<rparr>"
proof -
  let ?s = "data_object ev"
  have run: "stripeWebhook stripe stringify secret db req = sessionCompleted ?s db"
    using verified completed by (simp add: stripeWebhook_verified handleEvent_completed)
  note st = sessionCompleted_found [OF found populated]
  have after: "after =
      \<lparr>Courses = findByIdAndUpdate (courseId found) (admit (userId found)) (Courses db),
       CoursePurchases = save (byPaymentId (session_id ?s))
                           (completedPurchase ?s found) (CoursePurchases db),
       Lectures = updateMany (lectures c) makeVisible (Lectures db),
       Users = findByIdAndUpdate (userId found) (enrol (courseId found)) (Users db)\<rparr>"
    unfolding after_def run by (rule st(1))
  have same_id: "byPaymentId (session_id ?s) (completedPurchase ?s found)"
    using findOne_Some_member [OF found] by (simp add: byPaymentId_completedPurchase)
  have "findOne (byPaymentId (session_id ?s)) (CoursePurchases after)
          = Some (completedPurchase ?s found)"
    unfolding after using findOne_save [OF found, of "completedPurchase ?s found"] same_id by simp
  then have A: "\<exists>p. findOne (byPaymentId (session_id ?s)) (CoursePurchases after) = Some p
             \<and> status p = ''completed'' \<and> courseId p = courseId found \<and> userId p = userId found"
    by (simp add: completedPurchase_fields)
  have B: "\<forall>i \<in> set (lectures c). \<forall>l. findById (Lectures db) i = Some l \<longrightarrow>
             findById (Lectures after) i = Some (l\<lparr>isPreviewFree := True\<rparr>)"
    unfolding after by (simp add: findById_def updateMany_apply makeVisible_def)
  have C: "\<forall>u. findById (Users db) (userId found) = Some u \<longrightarrow>
             (\<exists>u'. findById (Users after) (userId found) = Some u'
                 \<and> set (enrolledCourses u') = insert (courseId found) (set (enrolledCourses u)))"
    unfolding after by (simp add: findById_def findByIdAndUpdate_apply enrol_def set_addToSet)
  have D: "\<exists>c'. findById (Courses after) (courseId found) = Some c'
             \<and> set (enrolledStudents c') = insert (userId found) (set (enrolledStudents c))"
    unfolding after using populated
    by (simp add: findById_def findByIdAndUpdate_apply admit_def set_addToSet)
  have E: "sent (stripeWebhook stripe stringify secret db req)
           = Some \<lparr>status_code = 200, payload = NoContent\<rparr>"
    unfolding run by (rule st(2))
  from A B C D E show ?thesis by blast
qed

text \<open>
  C2 (the code departs from it). The claim: for every \<^verbatim>\<open>checkout.session.completed\<close> event
  whose session id matches an existing pending purchase, the handler sets the status of
  that purchase to completed, sets \<^verbatim>\<open>isPreviewFree\<close> on every lecture of the associated
  course, adds the course id to the \<^verbatim>\<open>enrolledCourses\<close> of the user and the user id to the
  \<^verbatim>\<open>enrolledStudents\<close> of the course. With the pending purchase of the sample database and
  its course document gone, \<^verbatim>\<open>populate\<close> yields \<^verbatim>\<open>null\<close>: line 115 guards against that, the
  purchase is saved as completed, line 127 reads \<^verbatim>\<open>purchase.courseId._id\<close> without a guard
  and throws, and the handler answers 500 with the user enrolled in nothing.
\<close>

theorem stripeWebhook_completed_course_missing:
  "findOne (byPaymentId ''cs_1'') (CoursePurchases orphan_db) = Some sample_purchase
   \<and> status sample_purchase = ''pending''
   \<and> findById (Users orphan_db) (userId sample_purchase) = Some \<lparr>enrolledCourses = []\<rparr>
   \<and> sent (stripeWebhook
         (sample_client sample_session (sample_event ''checkout.session.completed'' (Some (Num 452))))
         id (Some ''whsec'') orphan_db sample_request)
       = Some \<lparr>status_code = 500, payload = Message ''Internal Server Error''\<rparr>
   \<and> map status (CoursePurchases (store (stripeWebhook
         (sample_client sample_session (sample_event ''checkout.session.completed'' (Some (Num 452))))
         id (Some ''whsec'') orphan_db sample_request))) = [''completed'']
   \<and> findById (Users (store (stripeWebhook
         (sample_client sample_session (sample_event ''checkout.session.completed'' (Some (Num 452))))
         id (Some ''whsec'') orphan_db sample_request))) (userId sample_purchase)
       = Some \<lparr>enrolledCourses = []\<rparr>"
  by (simp add: stripeWebhook_def constructedEvent_def handleEvent_def sessionCompleted_def
      completedPurchase_def findOne_def findById_def byPaymentId_def Let_def orphan_db_def
      sample_defs)

text \<open>
  C3 (amended). For every \<^verbatim>\<open>checkout.session.completed\<close> event matching an existing purchase,
  the handler sets the amount of the purchase to the reported total divided by 100 when
  that total is truthy (present, not zero, not \<open>NaN\<close>); when it is missing or falsy,
  the test of line 109 fails and the amount stays as it was.
\<close>

theorem stripeWebhook_completed_amount:
  assumes verified: "constructedEvent stripe stringify secret req = Inr ev"
    and completed: "event_type ev = ''checkout.session.completed''"
    and found: "findOne (byPaymentId (session_id (data_object ev))) (CoursePurchases db) = Some found"
  defines "after \<equiv> store (stripeWebhook stripe stringify secret db req)"
  shows "\<exists>p. findOne (byPaymentId (session_id (data_object ev))) (CoursePurchases after) = Some p
           \<and> amount p =
               (case amount_total (data_object ev) of
                  None \<Rightarrow> amount found
                | Some reported \<Rightarrow>
                    if truthy reported then js_div reported (Num 100) else amount found)"
proof -
  let ?s = "data_object ev"
  let ?saved = "completedPurchase ?s found"
  have run: "stripeWebhook stripe stringify secret db req = sessionCompleted ?s db"
    using verified completed by (simp add: stripeWebhook_verified handleEvent_completed)
  have purchases: "CoursePurchases after
      = save (byPaymentId (session_id ?s)) ?saved (CoursePurchases db)"
  proof (cases "findById (Courses db) (courseId found)")
    case None
    show ?thesis unfolding after_def run sessionCompleted_no_course(1) [OF found None] by simp
  next
    case (Some c)
    show ?thesis unfolding after_def run sessionCompleted_found(1) [OF found Some] by simp
  qed
  have "byPaymentId (session_id ?s) ?saved"
    using findOne_Some_member [OF found] by (simp add: byPaymentId_completedPurchase)
  then have "findOne (byPaymentId (session_id ?s)) (CoursePurchases after) = Some ?saved"
    unfolding purchases using findOne_save [OF found] by simp
  moreover have "amount ?saved =
               (case amount_total ?s of
                  None \<Rightarrow> amount found
                | Some reported \<Rightarrow>
                    if truthy reported then js_div reported (Num 100) else amount found)"
    by (simp add: completedPurchase_def split: option.splits)
  ultimately show ?thesis by blast
qed

theorem stripeWebhook_completed_amount_witness:
  "constructedEvent
      (sample_client sample_session (sample_event ''checkout.session.completed'' (Some (Num 452))))
      id (Some ''whsec'') sample_request
     = Inr (sample_event ''checkout.session.completed'' (Some (Num 452)))
   \<and> findOne (byPaymentId ''cs_1'') (CoursePurchases sample_db) = Some sample_purchase
   \<and> (\<exists>p. findOne (byPaymentId ''cs_1'')
              (CoursePurchases (store (stripeWebhook
                 (sample_client sample_session (sample_event ''checkout.session.completed'' (Some (Num 452))))
                 id (Some ''whsec'') sample_db sample_request))) = Some p
          \<and> amount p = js_div (Num 452) (Num 100))"
proof -
  let ?ev = "sample_event ''checkout.session.completed'' (Some (Num 452))"
  let ?client = "sample_client sample_session ?ev"
  have h1: "constructedEvent ?client id (Some ''whsec'') sample_request = Inr ?ev"
    by (simp add: constructedEvent_def sample_defs)
  have h2: "event_type ?ev = ''checkout.session.completed''"
    by (simp add: sample_defs)
  have h3: "findOne (byPaymentId (session_id (data_object ?ev))) (CoursePurchases sample_db)
              = Some sample_purchase"
    by (simp add: findOne_def byPaymentId_def sample_defs)
  have s: "session_id (data_object ?ev) = ''cs_1''" "amount_total (data_object ?ev) = Some (Num 452)"
    by (simp_all add: sample_defs)
  from stripeWebhook_completed_amount [OF h1 h2 h3] h1 h3 s
  show ?thesis by simp
qed

text \<open>
  The claim as first stated, for every value of the reported total, fails at a total of 0:
  the purchase is completed, its amount is still the course price 15, not 0 / 100.
\<close>

theorem stripeWebhook_zero_total_keeps_amount:
  "map amount (CoursePurchases (store (stripeWebhook
       (sample_client sample_session (sample_event ''checkout.session.completed'' (Some (Num 0))))
       id (Some ''whsec'') sample_db sample_request))) = [Num 15]
   \<and> map status (CoursePurchases (store (stripeWebhook
       (sample_client sample_session (sample_event ''checkout.session.completed'' (Some (Num 0))))
       id (Some ''whsec'') sample_db sample_request))) = [''completed'']
   \<and> js_div (Num 0) (Num 100) = Num 0"
  by (simp add: stripeWebhook_def constructedEvent_def handleEvent_def sessionCompleted_def
      completedPurchase_def findOne_def findById_def byPaymentId_def binary64_def Let_def sample_defs)

text \<open>
  C4. \<^verbatim>\<open>createCheckoutSession\<close> persists a purchase only after the provider has returned a
  session with a URL: the record appended has status pending, the price of the course as
  amount and the id of the session as \<^verbatim>\<open>paymentId\<close>. If the session has no URL the answer is
  400 and nothing is persisted; nothing is persisted either when the course is unknown or
  the provider call throws.
\<close>

theorem createCheckoutSession_persists_after_url:
  fixes db :: database
  defines "pending c uid cid sid \<equiv>
             \<lparr>courseId = cid, userId = uid, amount = coursePrice c,
              status = ''pending'', paymentId = Some sid\<rparr>"
  shows "case findById (Courses db) cid of
           None \<Rightarrow> store (createCheckoutSession stripe db uid cid) = db
         | Some c \<Rightarrow>
             (case sessions_create stripe (session_request c uid cid) of
                Inl error \<Rightarrow> store (createCheckoutSession stripe db uid cid) = db
              | Inr session \<Rightarrow>
                  (case session_url session of
                     None \<Rightarrow>
                       store (createCheckoutSession stripe db uid cid) = db
                       \<and> sent (createCheckoutSession stripe db uid cid)
                           = Some \<lparr>status_code = 400,
                                   payload = Outcome False ''Error while creating session''\<rparr>
                   | Some u \<Rightarrow>
                       store (createCheckoutSession stripe db uid cid)
                         = db\<lparr>CoursePurchases := CoursePurchases db
                                  @ [pending c uid cid (session_id session)]\<rparr>
                       \<and> sent (createCheckoutSession stripe db uid cid)
                           = Some \<lparr>status_code = 200, payload = CheckoutUrl u\<rparr>))"
  by (simp add: createCheckoutSession_def pending_def Let_def split: option.splits sum.splits)

theorem createCheckoutSession_persists_after_url_witness:
  "findById (Courses sample_db) ''c1'' = Some sample_course
   \<and> sessions_create (sample_client sample_session (sample_event ''checkout.session.expired'' None))
        (session_request sample_course ''u2'' ''c1'') = Inr sample_session
   \<and> session_url sample_session = Some ''https://checkout.example/cs_2''
   \<and> store (createCheckoutSession
               (sample_client sample_session (sample_event ''checkout.session.expired'' None))
               sample_db ''u2'' ''c1'')
       = sample_db\<lparr>CoursePurchases := CoursePurchases sample_db
            @ [\<lparr>courseId = ''c1'', userId = ''u2'', amount = Num 15, status = ''pending'',
                paymentId = Some ''cs_2''\<rparr>]\<rparr>
   \<and> sent (createCheckoutSession
               (sample_client sample_session (sample_event ''checkout.session.expired'' None))
               sample_db ''u2'' ''c1'')
       = Some \<lparr>status_code = 200, payload = CheckoutUrl ''https://checkout.example/cs_2''\<rparr>"
proof -
  let ?client = "sample_client sample_session (sample_event ''checkout.session.expired'' None)"
  have h1: "findById (Courses sample_db) ''c1'' = Some sample_course"
    by (simp add: findById_def sample_defs)
  have h2: "sessions_create ?client (session_request sample_course ''u2'' ''c1'') = Inr sample_session"
    by (simp add: sample_client_def)
  have h3: "session_url sample_session = Some ''https://checkout.example/cs_2''"
    by (simp add: session_url_def sample_session_def)
  have s: "coursePrice sample_course = Num 15" "session_id sample_session = ''cs_2''"
    by (simp_all add: sample_defs)
  from createCheckoutSession_persists_after_url
         [where db = sample_db and cid = "''c1''" and stripe = ?client and uid = "''u2''"] h1 h2 h3 s
  show ?thesis by simp
qed

text \<open>
  C5. For every \<^verbatim>\<open>checkout.session.expired\<close> event the handler deletes the purchase whose
  \<^verbatim>\<open>paymentId\<close> is the id of the expired session (the first one, should there be several),
  leaves the database as it is when there is none, touches no other collection, and
  answers 200 in both cases.
\<close>

theorem stripeWebhook_expired_deletes:
  fixes db :: database
  assumes verified: "constructedEvent stripe stringify secret req = Inr ev"
    and expired: "event_type ev = ''checkout.session.expired''"
  defines "r \<equiv> stripeWebhook stripe stringify secret db req"
  shows "(\<forall>p. findOne (byPaymentId (session_id (data_object ev))) (CoursePurchases db) = Some p \<longrightarrow>
            CoursePurchases (store r) = remove1 p (CoursePurchases db)
            \<and> Suc (length (CoursePurchases (store r))) = length (CoursePurchases db))
       \<and> (findOne (byPaymentId (session_id (data_object ev))) (CoursePurchases db) = None \<longrightarrow>
            store r = db)
       \<and> Courses (store r) = Courses db
       \<and> Lectures (store r) = Lectures db
       \<and> Users (store r) = Users db
       \<and> sent r = Some \<lparr>status_code = 200, payload = NoContent\<rparr>"
proof -
  let ?P = "byPaymentId (session_id (data_object ev))"
  have run: "r = sessionExpired (data_object ev) db"
    unfolding r_def using verified expired
    by (simp add: stripeWebhook_verified handleEvent_expired)
  have A: "CoursePurchases (store r) = remove1 p (CoursePurchases db)
           \<and> Suc (length (CoursePurchases (store r))) = length (CoursePurchases db)"
    if "findOne ?P (CoursePurchases db) = Some p" for p
  proof -
    have "p \<in> set (CoursePurchases db)" using that by (simp add: findOne_Some_member)
    then have "0 < length (CoursePurchases db)" by (cases "CoursePurchases db") auto
    moreover have "CoursePurchases (store r) = remove1 p (CoursePurchases db)"
      unfolding run by (simp add: sessionExpired_def findOneAndDelete_match [OF that])
    ultimately show ?thesis
      using \<open>p \<in> set (CoursePurchases db)\<close> by (simp add: length_remove1)
  qed
  have B: "store r = db" if "findOne ?P (CoursePurchases db) = None"
    unfolding run by (simp add: sessionExpired_def findOneAndDelete_no_match [OF that])
  have C: "Courses (store r) = Courses db" "Lectures (store r) = Lectures db"
    "Users (store r) = Users db" "sent r = Some \<lparr>status_code = 200, payload = NoContent\<rparr>"
    unfolding run by (simp_all add: sessionExpired_def)
  from A B C show ?thesis by blast
qed

theorem stripeWebhook_expired_deletes_witness:
  "constructedEvent
      (sample_client sample_session (sample_event ''checkout.session.expired'' None))
      id (Some ''whsec'') sample_request
     = Inr (sample_event ''checkout.session.expired'' None)
   \<and> findOne (byPaymentId ''cs_1'') (CoursePurchases sample_db) = Some sample_purchase
   \<and> CoursePurchases (store (stripeWebhook
         (sample_client sample_session (sample_event ''checkout.session.expired'' None))
         id (Some ''whsec'') sample_db sample_request)) = []
   \<and> sent (stripeWebhook
         (sample_client sample_session (sample_event ''checkout.session.expired'' None))
         id (Some ''whsec'') sample_db sample_request)
       = Some \<lparr>status_code = 200, payload = NoContent\<rparr>"
proof -
  let ?ev = "sample_event ''checkout.session.expired'' None"
  let ?client = "sample_client sample_session ?ev"
  have h1: "constructedEvent ?client id (Some ''whsec'') sample_request = Inr ?ev"
    by (simp add: constructedEvent_def sample_defs)
  have h2: "event_type ?ev = ''checkout.session.expired''"
    by (simp add: sample_defs)
  have h3: "findOne (byPaymentId (session_id (data_object ?ev))) (CoursePurchases sample_db)
              = Some sample_purchase"
    by (simp add: findOne_def byPaymentId_def sample_defs)
  have s: "session_id (data_object ?ev) = ''cs_1''"
    "remove1 sample_purchase (CoursePurchases sample_db) = []"
    by (simp_all add: sample_defs)
  from stripeWebhook_expired_deletes [OF h1 h2, of sample_db] h1 h3 s
  show ?thesis by simp
qed




text \<open>
  C7. Processing the same \<^verbatim>\<open>checkout.session.completed\<close> event a second time leaves the
  database exactly as the first processing left it and gives the same answer; the matching
  purchase still has status completed, and enrolment lists without duplicates stay without
  duplicates.
\<close>

theorem stripeWebhook_completed_twice:
  fixes db :: database
  assumes verified: "constructedEvent stripe stringify secret req = Inr ev"
    and completed: "event_type ev = ''checkout.session.completed''"
  defines "once \<equiv> stripeWebhook stripe stringify secret db req"
  defines "twice \<equiv> stripeWebhook stripe stringify secret (store once) req"
  shows "store twice = store once
       \<and> sent twice = sent once
       \<and> (\<forall>p. findOne (byPaymentId (session_id (data_object ev))) (CoursePurchases (store twice)) = Some p
              \<longrightarrow> status p = ''completed'')
       \<and> (\<forall>i u u'. findById (Users db) i = Some u \<and> distinct (enrolledCourses u)
              \<and> findById (Users (store twice)) i = Some u' \<longrightarrow> distinct (enrolledCourses u'))
       \<and> (\<forall>i c c'. findById (Courses db) i = Some c \<and> distinct (enrolledStudents c)
              \<and> findById (Courses (store twice)) i = Some c' \<longrightarrow> distinct (enrolledStudents c'))"
proof -
  let ?s = "data_object ev"
  have once: "once = sessionCompleted ?s db"
    unfolding once_def using verified completed
    by (simp add: stripeWebhook_verified handleEvent_completed)
  have twice: "twice = sessionCompleted ?s (store (sessionCompleted ?s db))"
    unfolding twice_def once [symmetric] using verified completed
    by (simp add: stripeWebhook_verified handleEvent_completed)
  have same: "store twice = store once" "sent twice = sent once"
    unfolding once twice using sessionCompleted_twice [of ?s db] by simp_all
  have st: "status p = ''completed''"
    if "findOne (byPaymentId (session_id ?s)) (CoursePurchases (store twice)) = Some p" for p
    using that unfolding same(1) once by (rule sessionCompleted_status)
  have us: "distinct (enrolledCourses u')"
    if "findById (Users db) i = Some u" "distinct (enrolledCourses u)"
       "findById (Users (store twice)) i = Some u'" for i u u'
  proof -
    from that(3) have "findById (Users (store (sessionCompleted ?s db))) i = Some u'"
      unfolding same(1) once .
    from sessionCompleted_users [OF this] that(1,2) show ?thesis
      by (auto simp: enrol_def distinct_addToSet)
  qed
  have cs: "distinct (enrolledStudents c')"
    if "findById (Courses db) i = Some c" "distinct (enrolledStudents c)"
       "findById (Courses (store twice)) i = Some c'" for i c c'
  proof -
    from that(3) have "findById (Courses (store (sessionCompleted ?s db))) i = Some c'"
      unfolding same(1) once .
    from sessionCompleted_courses [OF this] that(1,2) show ?thesis
      by (auto simp: admit_def distinct_addToSet)
  qed
  from same st us cs show ?thesis by blast
qed

theorem stripeWebhook_completed_twice_witness:
  "constructedEvent
      (sample_client sample_session (sample_event ''checkout.session.completed'' (Some (Num 452))))
      id (Some ''whsec'') sample_request
     = Inr (sample_event ''checkout.session.completed'' (Some (Num 452)))
   \<and> event_type (sample_event ''checkout.session.completed'' (Some (Num 452)))
       = ''checkout.session.completed''
   \<and> store (stripeWebhook
         (sample_client sample_session (sample_event ''checkout.session.completed'' (Some (Num 452))))
         id (Some ''whsec'')
         (store (stripeWebhook
            (sample_client sample_session (sample_event ''checkout.session.completed'' (Some (Num 452))))
            id (Some ''whsec'') sample_db sample_request))
         sample_request)
     = store (stripeWebhook
         (sample_client sample_session (sample_event ''checkout.session.completed'' (Some (Num 452))))
         id (Some ''whsec'') sample_db sample_request)
   \<and> map_option enrolledCourses
        (Users (store (stripeWebhook
           (sample_client sample_session (sample_event ''checkout.session.completed'' (Some (Num 452))))
           id (Some ''whsec'') sample_db sample_request)) ''u1'') = Some [''c1'']"
proof -
  let ?ev = "sample_event ''checkout.session.completed'' (Some (Num 452))"
  let ?client = "sample_client sample_session ?ev"
  have h1: "constructedEvent ?client id (Some ''whsec'') sample_request = Inr ?ev"
    by (simp add: constructedEvent_def sample_defs)
  have h2: "event_type ?ev = ''checkout.session.completed''"
    by (simp add: sample_defs)
  have h3: "findOne (byPaymentId (session_id (data_object ?ev))) (CoursePurchases sample_db)
              = Some sample_purchase"
    by (simp add: findOne_def byPaymentId_def sample_defs)
  have h4: "findById (Courses sample_db) (courseId sample_purchase) = Some sample_course"
    by (simp add: findById_def sample_defs)
  have run: "stripeWebhook ?client id (Some ''whsec'') sample_db sample_request
          = sessionCompleted (data_object ?ev) sample_db"
    using h1 h2 by (simp add: stripeWebhook_verified handleEvent_completed)
  have e: "map_option enrolledCourses
        (Users (store (stripeWebhook ?client id (Some ''whsec'') sample_db sample_request)) ''u1'')
        = Some [''c1'']"
    unfolding run sessionCompleted_found(1) [OF h3 h4]
    by (simp add: findByIdAndUpdate_apply enrol_def addToSet_def sample_defs)
  from stripeWebhook_completed_twice [OF h1 h2, of sample_db] h1 h2 e
  show ?thesis by simp
qed

text \<open>
  C8. For every verified event whose type is neither \<^verbatim>\<open>checkout.session.completed\<close> nor
  \<^verbatim>\<open>checkout.session.expired\<close>, the handler leaves the whole database unchanged and
  answers 200.
\<close>

theorem stripeWebhook_other_event_no_change:
  assumes verified: "constructedEvent stripe stringify secret req = Inr ev"
    and "event_type ev \<noteq> ''checkout.session.completed''"
    and "event_type ev \<noteq> ''checkout.session.expired''"
  shows "store (stripeWebhook stripe stringify secret db req) = db
       \<and> sent (stripeWebhook stripe stringify secret db req)
           = Some \<lparr>status_code = 200, payload = NoContent\<rparr>"
  using assms by (simp add: stripeWebhook_verified handleEvent_def)

theorem stripeWebhook_other_event_no_change_witness:
  "constructedEvent
      (sample_client sample_session (sample_event ''payment_intent.succeeded'' None))
      id (Some ''whsec'') sample_request
     = Inr (sample_event ''payment_intent.succeeded'' None)
   \<and> event_type (sample_event ''payment_intent.succeeded'' None) \<noteq> ''checkout.session.completed''
   \<and> event_type (sample_event ''payment_intent.succeeded'' None) \<noteq> ''checkout.session.expired''
   \<and> store (stripeWebhook
         (sample_client sample_session (sample_event ''payment_intent.succeeded'' None))
         id (Some ''whsec'') sample_db sample_request) = sample_db
   \<and> sent (stripeWebhook
         (sample_client sample_session (sample_event ''payment_intent.succeeded'' None))
         id (Some ''whsec'') sample_db sample_request)
       = Some \<lparr>status_code = 200, payload = NoContent\<rparr>"
proof -
  let ?ev = "sample_event ''payment_intent.succeeded'' None"
  let ?client = "sample_client sample_session ?ev"
  have h1: "constructedEvent ?client id (Some ''whsec'') sample_request = Inr ?ev"
    by (simp add: constructedEvent_def sample_defs)
  have h2: "event_type ?ev \<noteq> ''checkout.session.completed''"
    by (simp add: sample_defs)
  have h3: "event_type ?ev \<noteq> ''checkout.session.expired''"
    by (simp add: sample_defs)
  from stripeWebhook_other_event_no_change [OF h1 h2 h3, of sample_db] h1 h2 h3
  show ?thesis by simp
qed

text \<open>
  C9. If an awaited query of \<^verbatim>\<open>getCourseDetailWithPurchaseStatus\<close> or of
  \<^verbatim>\<open>getAllPurchasedCourse\<close> is rejected, the handler sends no response: the error is written
  to the console and nothing else happens. These are the only runs without a response.
\<close>

theorem query_handlers_swallow_errors:
  "(rejection 0 = Some error \<or> (rejection 0 = None \<and> rejection 1 = Some error) \<longrightarrow>
      getCourseDetailWithPurchaseStatus rejection db uid cid
        = \<lparr>sent = None, console = [LogError error], store = db\<rparr>)
   \<and> (rejection 0 = Some error \<longrightarrow>
      getAllPurchasedCourse rejection db = \<lparr>sent = None, console = [LogError error], store = db\<rparr>)
   \<and> (sent (getCourseDetailWithPurchaseStatus rejection db uid cid) = None
        \<longleftrightarrow> rejection 0 \<noteq> None \<or> rejection 1 \<noteq> None)
   \<and> (sent (getAllPurchasedCourse rejection db) = None \<longleftrightarrow> rejection 0 \<noteq> None)"
  by (auto simp: getCourseDetailWithPurchaseStatus_def getAllPurchasedCourse_def await_def
      split: option.splits)

theorem query_handlers_swallow_errors_witness:
  "connection_lost 0 = Some (Rejected ''connection lost'')
   \<and> getCourseDetailWithPurchaseStatus connection_lost sample_db ''u1'' ''c1''
       = \<lparr>sent = None, console = [LogError (Rejected ''connection lost'')], store = sample_db\<rparr>
   \<and> getAllPurchasedCourse connection_lost sample_db
       = \<lparr>sent = None, console = [LogError (Rejected ''connection lost'')], store = sample_db\<rparr>"
proof -
  have h: "connection_lost 0 = Some (Rejected ''connection lost'')"
    by (simp add: connection_lost_def)
  from query_handlers_swallow_errors
         [of connection_lost "Rejected ''connection lost''" sample_db "''u1''" "''c1''"] h
  show ?thesis by simp
qed




end
